theory Spec2Isabelle
  imports Complex_Main "HOL-Library.AList" "HOL-Library.Sublist"
begin

section \<open>Python values and strings\<close>

text \<open>
  The values that flow through the mapper: \<open>None\<close>, \<open>str\<close>, \<open>int\<close> (unbounded),
  \<open>float\<close> and \<open>bool\<close>. A float is represented by the real number it denotes; the
  mapper never computes with floats, it only passes them on and tests them for zero.
\<close>

datatype pyval = PNone | PStr string | PInt int | PFloat real | PBool bool

text \<open>Truthiness, as \<open>bool(value)\<close> and \<open>... if value else ...\<close> read it.\<close>

fun truthy :: "pyval \<Rightarrow> bool" where
  "truthy PNone = False"
| "truthy (PStr s) = (s \<noteq> [])"
| "truthy (PInt i) = (i \<noteq> 0)"
| "truthy (PFloat r) = (r \<noteq> 0)"
| "truthy (PBool b) = b"

text \<open>\<open>sep.join(xs)\<close>.\<close>

fun join :: "string \<Rightarrow> string list \<Rightarrow> string" where
  "join sep [] = []"
| "join sep [x] = x"
| "join sep (x # y # zs) = x @ sep @ join sep (y # zs)"

text \<open>\<open>s.find(sub)\<close>: the lowest index at which \<open>sub\<close> occurs; \<open>sub in s\<close> is
  \<open>str_find sub s \<noteq> None\<close>.\<close>

fun str_find :: "string \<Rightarrow> string \<Rightarrow> nat option" where
  "str_find sub [] = (if sub = [] then Some 0 else None)"
| "str_find sub (c # cs) =
     (if prefix sub (c # cs) then Some 0 else map_option Suc (str_find sub cs))"

text \<open>\<open>s.rfind(sub)\<close>: the highest index at which \<open>sub\<close> occurs, scanning from the
  right end as the interpreter does.\<close>

fun rfind_from :: "string \<Rightarrow> string \<Rightarrow> nat \<Rightarrow> nat option" where
  "rfind_from sub s 0 = (if prefix sub s then Some 0 else None)"
| "rfind_from sub s (Suc i) =
     (if prefix sub (drop (Suc i) s) then Some (Suc i) else rfind_from sub s i)"

definition str_rfind :: "string \<Rightarrow> string \<Rightarrow> nat option" where
  "str_rfind sub s =
     (if length sub \<le> length s then rfind_from sub s (length s - length sub) else None)"

text \<open>\<open>s.rsplit(sep, 1)\<close>: at most one split, at the last occurrence of \<open>sep\<close>.\<close>

definition rsplit1 :: "string \<Rightarrow> string \<Rightarrow> string list" where
  "rsplit1 sep s =
     (case str_rfind sep s of
        None \<Rightarrow> [s]
      | Some i \<Rightarrow> [take i s, drop (i + length sep) s])"

text \<open>\<open>s.lower()\<close> on ASCII letters.\<close>

definition lower_char :: "char \<Rightarrow> char" where
  "lower_char c =
     (let n = (of_char c :: nat) in if 65 \<le> n \<and> n \<le> 90 then char_of (n + 32) else c)"

definition lower :: "string \<Rightarrow> string" where
  "lower s = map lower_char s"

section \<open>Errors\<close>

text \<open>
  Every \<open>raise\<close> of the source is a value: \<open>RuntimeError\<close> and \<open>ValueError\<close> carry the
  message the source formats; \<open>StorageError\<close> stands for any exception of the SQLite
  driver, which the mapper never catches.
\<close>

datatype error = RuntimeError string | ValueError string | StorageError string

section \<open>field_types.py\<close>

datatype pytype = Tstr | Tint | Tfloat | Tbool

record FieldType =
  sqlite_type :: string
  python_type :: pytype

text \<open>
  A type annotation as \<open>get_field_type\<close> can tell them apart: the literal \<open>None\<close>,
  the classes \<open>NoneType\<close>, \<open>str\<close>, \<open>int\<close>, \<open>float\<close>, \<open>bool\<close>, any other class or object
  without a typing origin, and a parameterised form (\<open>get_origin\<close> is not \<open>None\<close>) with
  its origin's name and its \<open>get_args\<close>: \<open>Generic ''Union'' [IntT, NoneType]\<close> is
  \<open>int | None\<close>.
\<close>

datatype annotation =
    NoneLit
  | NoneType
  | StrT
  | IntT
  | FloatT
  | BoolT
  | OtherClass string
  | Generic string "annotation list"

definition FieldType_to_db_value :: "FieldType \<Rightarrow> pyval \<Rightarrow> pyval" where
  "FieldType_to_db_value ft v =
     (if v = PNone then PNone
      else if python_type ft = Tbool then PInt (if truthy v then 1 else 0)
      else v)"

definition FieldType_from_db_value :: "FieldType \<Rightarrow> pyval \<Rightarrow> pyval" where
  "FieldType_from_db_value ft v =
     (if v = PNone then PNone
      else if python_type ft = Tbool then PBool (truthy v)
      else v)"

text \<open>\<open>TYPE_MAPPING.get(annotation)\<close>.\<close>

fun TYPE_MAPPING :: "annotation \<Rightarrow> FieldType option" where
  "TYPE_MAPPING StrT = Some \<lparr>sqlite_type = ''TEXT'', python_type = Tstr\<rparr>"
| "TYPE_MAPPING IntT = Some \<lparr>sqlite_type = ''INTEGER'', python_type = Tint\<rparr>"
| "TYPE_MAPPING FloatT = Some \<lparr>sqlite_type = ''REAL'', python_type = Tfloat\<rparr>"
| "TYPE_MAPPING BoolT = Some \<lparr>sqlite_type = ''INTEGER'', python_type = Tbool\<rparr>"
| "TYPE_MAPPING _ = None"

text \<open>\<open>arg is type(None) if isinstance(arg, type) else arg is None\<close>.\<close>

definition is_none_arg :: "annotation \<Rightarrow> bool" where
  "is_none_arg arg = (arg = NoneType \<or> arg = NoneLit)"

fun get_field_type :: "annotation \<Rightarrow> FieldType option" where
  "get_field_type NoneLit = None"
| "get_field_type (Generic origin args) =
     TYPE_MAPPING
       (if length args = 2 then
          (if list_ex is_none_arg args then
             (case find (\<lambda>arg. arg \<noteq> NoneType) args of
                None \<Rightarrow> Generic origin args
              | Some non_none_type \<Rightarrow>
                  if non_none_type \<noteq> NoneLit then non_none_type else Generic origin args)
           else Generic origin args)
        else if length args > 0 then args ! 0
        else Generic origin args)"
| "get_field_type annotation = TYPE_MAPPING annotation"

definition python_to_sqlite_type :: "annotation \<Rightarrow> string option" where
  "python_to_sqlite_type annotation = map_option sqlite_type (get_field_type annotation)"

definition to_db_value :: "pyval \<Rightarrow> annotation \<Rightarrow> pyval" where
  "to_db_value v annotation =
     (case get_field_type annotation of
        None \<Rightarrow> v
      | Some field_type \<Rightarrow> FieldType_to_db_value field_type v)"

definition from_db_value :: "pyval \<Rightarrow> annotation \<Rightarrow> pyval" where
  "from_db_value v annotation =
     (case get_field_type annotation of
        None \<Rightarrow> v
      | Some field_type \<Rightarrow> FieldType_from_db_value field_type v)"


section \<open>query.py\<close>

definition OPERATORS :: "(string \<times> string) list" where
  "OPERATORS =
     [(''__exact'', ''=''), (''__gt'', ''>''), (''__lt'', ''<''), (''__like'', ''LIKE'')]"

definition parse_filter_key :: "string \<Rightarrow> string \<times> string" where
  "parse_filter_key key =
     (if str_find ''__'' key = None then (key, ''__exact'')
      else
        (let parts = rsplit1 ''__'' key in
         if length parts = 2 then
           (let field_name = parts ! 0; operator = ''__'' @ parts ! 1 in
            if map_of OPERATORS operator \<noteq> None then (field_name, operator)
            else (key, ''__exact''))
         else (key, ''__exact'')))"

text \<open>The loop of \<open>parse_filters\<close> over \<open>kwargs.items()\<close>, with the two lists it
  appends to.\<close>

fun parse_filters_loop ::
  "(string \<times> pyval) list \<Rightarrow> string list \<Rightarrow> pyval list \<Rightarrow> error + (string list \<times> pyval list)"
where
  "parse_filters_loop [] conditions vals = Inr (conditions, vals)"
| "parse_filters_loop ((key, v) # kwargs) conditions vals =
     (let (field_name, operator) = parse_filter_key key in
      case map_of OPERATORS operator of
        None \<Rightarrow> Inl (ValueError (''Unsupported filter operator: '' @ operator))
      | Some sql_operator \<Rightarrow>
          parse_filters_loop kwargs
            (conditions @ [field_name @ '' '' @ sql_operator @ '' ?'']) (vals @ [v]))"

definition parse_filters :: "(string \<times> pyval) list \<Rightarrow> error + (string \<times> pyval list)" where
  "parse_filters kwargs =
     (case parse_filters_loop kwargs [] [] of
        Inl e \<Rightarrow> Inl e
      | Inr (conditions, vals) \<Rightarrow>
          Inr (if conditions \<noteq> [] then join '' AND '' conditions else ''1=1'', vals))"

section \<open>base_model.py: class declarations and ModelMeta\<close>

text \<open>
  An instance is its attribute dictionary (\<open>__dict__\<close>), in insertion order; the key
  \<open>''id''\<close> holds the identity.
\<close>

type_synonym inst = "(string \<times> pyval) list"

text \<open>
  A class attribute is a data value or a function. A function is represented by what
  calling it on an instance with no further argument does: it raises or it returns
  (the shape of a \<open>validate\<close> hook, taken to have no other effect).
\<close>

datatype clsattr = Data pyval | Func "inst \<Rightarrow> error option"

text \<open>
  The attributes of a \<open>Meta\<close> class that the mapper reads, each present or not
  (\<open>hasattr\<close>); \<open>db_table = Some None\<close> is the attribute set to \<open>None\<close>.
\<close>

record Meta =
  abstract :: "bool option"
  db_table :: "string option option"

text \<open>
  A class statement handled by \<open>ModelMeta.__new__\<close>: its name, its base (single
  inheritance; \<open>None\<close> for a class declared without bases, as \<open>Model\<close> is), and its
  namespace: the inner \<open>Meta\<close> class if the body has one, the annotations of the body in
  order, and the other attributes of the body. What \<open>ModelMeta.__new__\<close> computes when
  the statement runs (\<open>cls.Meta\<close>, \<open>cls._meta\<close>) is a function of the statement and of
  its base, given by \<open>class_Meta\<close> and \<open>own_meta\<close> below. Keyword arguments and
  annotations named like a private attribute or a method of \<open>Model\<close> itself, which
  would replace it on the instance, are not considered.
\<close>

datatype cls =
  Cls (cls_name: string) (cls_base: "cls option") (ns_Meta: "Meta option")
      (ns_annotations: "(string \<times> annotation) list") (ns_attrs: "(string \<times> clsattr) list")

record field_meta =
  fm_annotation :: annotation
  fm_sqlite_type :: string
  fm_python_type :: pytype

text \<open>The dictionary \<open>cls._meta\<close>.\<close>

record model_meta =
  meta_table_name :: string
  meta_fields :: "(string \<times> field_meta) list"
  meta_abstract :: bool

text \<open>Lines 25-30: every public attribute of the base's \<open>Meta\<close> that the class's
  \<open>Meta\<close> lacks is copied into it.\<close>

definition inherit_Meta :: "Meta \<Rightarrow> Meta \<Rightarrow> Meta" where
  "inherit_Meta meta_class base_Meta =
     \<lparr>abstract = (case abstract meta_class of None \<Rightarrow> abstract base_Meta | Some a \<Rightarrow> Some a),
      db_table = (case db_table meta_class of None \<Rightarrow> db_table base_Meta | Some t \<Rightarrow> Some t)\<rparr>"

text \<open>Lines 33-47: the defaults, and the table name of a class that is not abstract.\<close>

definition finish_Meta :: "string \<Rightarrow> Meta \<Rightarrow> Meta" where
  "finish_Meta name m0 =
     (let m1 = (if abstract m0 = None then m0\<lparr>abstract := Some False\<rparr> else m0);
          m2 = (if db_table m1 = None then m1\<lparr>db_table := Some None\<rparr> else m1)
      in if abstract m2 = Some True then m2
         else if db_table m2 = Some None then m2\<lparr>db_table := Some (Some (lower name))\<rparr>
         else m2)"

text \<open>\<open>cls.Meta\<close> once \<open>ModelMeta.__new__\<close> has returned.\<close>

fun class_Meta :: "cls \<Rightarrow> Meta" where
  "class_Meta (Cls name base nsMeta anns attrs) =
     finish_Meta name
       (let meta_class = (case nsMeta of None \<Rightarrow> \<lparr>abstract = None, db_table = None\<rparr> | Some m \<Rightarrow> m)
        in case base of
             None \<Rightarrow> meta_class
           | Some b \<Rightarrow> inherit_Meta meta_class (class_Meta b))"

text \<open>\<open>get_type_hints(cls)\<close>: the annotations along the inheritance chain, the base's
  first, a later annotation of the same name replacing the value in place.\<close>

fun get_type_hints :: "cls \<Rightarrow> (string \<times> annotation) list" where
  "get_type_hints (Cls name base nsMeta anns attrs) =
     fold (\<lambda>(k, a). AList.update k a) anns
       (case base of None \<Rightarrow> [] | Some b \<Rightarrow> get_type_hints b)"

text \<open>\<open>getattr(cls, attr, None)\<close> for the attributes of class bodies: the class's own
  namespace first, then its base's.\<close>

fun class_getattr :: "cls \<Rightarrow> string \<Rightarrow> clsattr option" where
  "class_getattr (Cls name base nsMeta anns attrs) attr =
     (case map_of attrs attr of
        Some x \<Rightarrow> Some x
      | None \<Rightarrow> (case base of None \<Rightarrow> None | Some b \<Rightarrow> class_getattr b attr))"

text \<open>\<open>inspect.ismethod(getattr(cls, n, None)) or inspect.isfunction(...)\<close>.\<close>

definition is_function_attr :: "cls \<Rightarrow> string \<Rightarrow> bool" where
  "is_function_attr c n = (case class_getattr c n of Some (Func h) \<Rightarrow> True | _ \<Rightarrow> False)"

text \<open>Lines 53-69: the loop over the type hints that fills \<open>fields\<close>; \<open>add_field\<close> is
  its body.\<close>

definition add_field ::
  "cls \<Rightarrow> string \<times> annotation \<Rightarrow> (string \<times> field_meta) list \<Rightarrow> (string \<times> field_meta) list"
where
  "add_field c hint flds =
     (case hint of
        (field_name, annotation) \<Rightarrow>
          if prefix ''_'' field_name \<or> field_name = ''Meta'' \<or> field_name = ''id'' then flds
          else if is_function_attr c field_name then flds
          else (case get_field_type annotation of
                  None \<Rightarrow> flds
                | Some field_type \<Rightarrow>
                    AList.update field_name
                      \<lparr>fm_annotation = annotation,
                       fm_sqlite_type = sqlite_type field_type,
                       fm_python_type = python_type field_type\<rparr> flds))"

definition derive_fields :: "cls \<Rightarrow> (string \<times> annotation) list \<Rightarrow> (string \<times> field_meta) list" where
  "derive_fields c type_hints = fold (add_field c) type_hints []"

text \<open>The \<open>_meta\<close> that \<open>ModelMeta.__new__\<close> stores on the class itself: none for an
  abstract class (the early return of line 43). The table name is \<open>meta_class.db_table\<close>,
  which line 47 has set by then.\<close>

definition own_meta :: "cls \<Rightarrow> model_meta option" where
  "own_meta c =
     (let meta_class = class_Meta c in
      if abstract meta_class = Some True then None
      else Some \<lparr>meta_table_name = (case db_table meta_class of Some (Some t) \<Rightarrow> t | _ \<Rightarrow> lower (cls_name c)),
                 meta_fields = derive_fields c (get_type_hints c),
                 meta_abstract = (abstract meta_class = Some True)\<rparr>)"

text \<open>\<open>cls._meta\<close> as attribute lookup finds it: on the class itself, else on its base
  (\<open>hasattr(cls, "_meta")\<close> is \<open>lookup_meta cls \<noteq> None\<close>).\<close>

fun lookup_meta :: "cls \<Rightarrow> model_meta option" where
  "lookup_meta (Cls name base nsMeta anns attrs) =
     (case own_meta (Cls name base nsMeta anns attrs) of
        Some m \<Rightarrow> Some m
      | None \<Rightarrow> (case base of None \<Rightarrow> None | Some b \<Rightarrow> lookup_meta b))"

definition not_initialized :: "cls \<Rightarrow> error" where
  "not_initialized c =
     RuntimeError (''Model '' @ cls_name c @ '' is abstract or not properly initialized'')"

definition get_table_name :: "cls \<Rightarrow> error + string" where
  "get_table_name c =
     (case lookup_meta c of None \<Rightarrow> Inl (not_initialized c) | Some m \<Rightarrow> Inr (meta_table_name m))"

definition get_fields :: "cls \<Rightarrow> error + (string \<times> field_meta) list" where
  "get_fields c =
     (case lookup_meta c of None \<Rightarrow> Inl (not_initialized c) | Some m \<Rightarrow> Inr (meta_fields m))"

definition is_abstract :: "cls \<Rightarrow> bool" where
  "is_abstract c = (case lookup_meta c of None \<Rightarrow> True | Some m \<Rightarrow> meta_abstract m)"

text \<open>
  The class \<open>Model\<close> itself, as its class statement reads. Its public methods are
  listed as function attributes (ModelMeta skips an annotation with such a name); what
  they do is given by the definitions below, not by these entries.
\<close>

definition Model_methods :: "string list" where
  "Model_methods =
     [''get_table_name'', ''get_fields'', ''is_abstract'', ''configure_db'', ''create_table'',
      ''create'', ''save'', ''delete'', ''get'', ''all'', ''filter'']"

definition Model :: cls where
  "Model =
     Cls ''Model'' None (Some \<lparr>abstract = Some False, db_table = Some None\<rparr>)
       [(''id'', Generic ''Union'' [IntT, NoneType]),
        (''_db'', Generic ''ClassVar'' [Generic ''Union'' [OtherClass ''DatabaseConnection'', NoneType]])]
       ([(''id'', Data PNone), (''_db'', Data PNone)] @ map (\<lambda>n. (n, Func (\<lambda>self. None))) Model_methods)"

text \<open>A class is a model when \<open>Model\<close> is at the root of its inheritance chain.\<close>

fun is_model :: "cls \<Rightarrow> bool" where
  "is_model (Cls name base nsMeta anns attrs) =
     (case base of
        None \<Rightarrow> Cls name base nsMeta anns attrs = Model
      | Some b \<Rightarrow> is_model b)"

section \<open>The storage engine\<close>

text \<open>
  SQLite is not part of the repository; this section is a model of the fragment of it
  that the statements of the mapper reach. A statement is kept in parsed form, with
  \<open>sql_text\<close> giving the text the source formats; only the \<open>WHERE\<close> clause of
  \<open>filter\<close>, which \<open>parse_filters\<close> builds, stays text and is parsed by the engine.
  Values are stored as they are bound (column affinity does not convert them), names
  are compared as written, and every table has been created by the mapper, so it has
  the integer key \<open>id\<close>, assigned from a counter that never goes back
  (\<open>AUTOINCREMENT\<close>). Statements of one connection see each other's effects, so
  \<open>commit\<close> changes nothing that the mapper can observe.
\<close>

datatype sqlval = SNull | SInt int | SReal real | SText string

type_synonym row = "(string \<times> sqlval) list"

record table =
  tbl_columns :: "(string \<times> string) list"
  tbl_rows :: "row list"
  tbl_seq :: int

type_synonym database = "(string \<times> table) list"

datatype stmt =
    TableExists
  | CreateTable string "(string \<times> string) list"
  | InsertInto string "string list"
  | UpdateSet string "string list"
  | DeleteFrom string
  | SelectById string "string list"
  | SelectAll string "string list"
  | SelectWhere string "string list" string

definition sql_text :: "stmt \<Rightarrow> string" where
  "sql_text q =
     (case q of
        TableExists \<Rightarrow>
          ''SELECT name FROM sqlite_master WHERE type='' @ [CHR 0x27] @ ''table'' @ [CHR 0x27]
            @ '' AND name=?''
      | CreateTable t cols \<Rightarrow>
          ''CREATE TABLE IF NOT EXISTS '' @ t @ '' (''
            @ join '', '' (''id INTEGER PRIMARY KEY AUTOINCREMENT'' # map (\<lambda>(n, ty). n @ '' '' @ ty) cols)
            @ '')''
      | InsertInto t cols \<Rightarrow>
          ''INSERT INTO '' @ t @ '' ('' @ join '', '' cols @ '') VALUES (''
            @ join '', '' (map (\<lambda>c. ''?'') cols) @ '')''
      | UpdateSet t cols \<Rightarrow>
          ''UPDATE '' @ t @ '' SET '' @ join '', '' (map (\<lambda>n. n @ '' = ?'') cols) @ '' WHERE id = ?''
      | DeleteFrom t \<Rightarrow> ''DELETE FROM '' @ t @ '' WHERE id = ?''
      | SelectById t cols \<Rightarrow> ''SELECT '' @ join '', '' cols @ '' FROM '' @ t @ '' WHERE id = ?''
      | SelectAll t cols \<Rightarrow> ''SELECT '' @ join '', '' cols @ '' FROM '' @ t
      | SelectWhere t cols w \<Rightarrow> ''SELECT '' @ join '', '' cols @ '' FROM '' @ t @ '' WHERE '' @ w)"

record cursor =
  cur_rows :: "sqlval list list"
  lastrowid :: "int option"

text \<open>How the driver binds a Python parameter, and how it hands a stored value
  back.\<close>

definition bind_param :: "pyval \<Rightarrow> error + sqlval" where
  "bind_param v =
     (case v of
        PNone \<Rightarrow> Inr SNull
      | PStr s \<Rightarrow> Inr (SText s)
      | PInt i \<Rightarrow>
          if - (2 ^ 63) \<le> i \<and> i < 2 ^ 63 then Inr (SInt i)
          else Inl (StorageError ''Python int too large to convert to SQLite INTEGER'')
      | PFloat r \<Rightarrow> Inr (SReal r)
      | PBool b \<Rightarrow> Inr (SInt (if b then 1 else 0)))"

fun bind_params :: "pyval list \<Rightarrow> error + sqlval list" where
  "bind_params [] = Inr []"
| "bind_params (v # vs) =
     (case bind_param v of
        Inl e \<Rightarrow> Inl e
      | Inr x \<Rightarrow> (case bind_params vs of Inl e \<Rightarrow> Inl e | Inr xs \<Rightarrow> Inr (x # xs)))"

definition py_of_sql :: "sqlval \<Rightarrow> pyval" where
  "py_of_sql x =
     (case x of SNull \<Rightarrow> PNone | SInt i \<Rightarrow> PInt i | SReal r \<Rightarrow> PFloat r | SText s \<Rightarrow> PStr s)"

text \<open>Comparison: \<open>NULL\<close> compares to nothing, numbers compare by value and sort
  before text, text compares byte by byte.\<close>

fun str_less :: "string \<Rightarrow> string \<Rightarrow> bool" where
  "str_less [] [] = False"
| "str_less [] (y # ys) = True"
| "str_less (x # xs) [] = False"
| "str_less (x # xs) (y # ys) =
     ((of_char x :: nat) < of_char y \<or> (x = y \<and> str_less xs ys))"

fun sql_eq :: "sqlval \<Rightarrow> sqlval \<Rightarrow> bool" where
  "sql_eq (SInt i) (SInt j) = (i = j)"
| "sql_eq (SInt i) (SReal r) = (of_int i = r)"
| "sql_eq (SReal r) (SInt j) = (r = of_int j)"
| "sql_eq (SReal r) (SReal q) = (r = q)"
| "sql_eq (SText s) (SText t) = (s = t)"
| "sql_eq _ _ = False"

fun sql_less :: "sqlval \<Rightarrow> sqlval \<Rightarrow> bool" where
  "sql_less (SInt i) (SInt j) = (i < j)"
| "sql_less (SInt i) (SReal r) = (of_int i < r)"
| "sql_less (SReal r) (SInt j) = (r < of_int j)"
| "sql_less (SReal r) (SReal q) = (r < q)"
| "sql_less (SInt i) (SText t) = True"
| "sql_less (SReal r) (SText t) = True"
| "sql_less (SText s) (SText t) = str_less s t"
| "sql_less _ _ = False"

text \<open>\<open>LIKE\<close> on text: \<open>%\<close> matches any run of characters, \<open>_\<close> any one character,
  letters match without regard to case; an operand that is not text matches
  nothing.\<close>

fun like_match :: "string \<Rightarrow> string \<Rightarrow> bool" where
  "like_match [] s = (s = [])"
| "like_match (p # ps) s =
     (if p = CHR ''%'' then list_ex (\<lambda>k. like_match ps (drop k s)) [0..<Suc (length s)]
      else (case s of
              [] \<Rightarrow> False
            | c # cs \<Rightarrow> (p = CHR ''_'' \<or> lower_char p = lower_char c) \<and> like_match ps cs))"

definition sql_like :: "sqlval \<Rightarrow> sqlval \<Rightarrow> bool" where
  "sql_like v pat = (case (v, pat) of (SText s, SText p) \<Rightarrow> like_match p s | _ \<Rightarrow> False)"

definition col_value :: "row \<Rightarrow> string \<Rightarrow> sqlval" where
  "col_value r c = (case map_of r c of None \<Rightarrow> SNull | Some v \<Rightarrow> v)"

definition has_column :: "table \<Rightarrow> string \<Rightarrow> bool" where
  "has_column t c = (c = ''id'' \<or> map_of (tbl_columns t) c \<noteq> None)"

text \<open>The \<open>WHERE\<close> text: \<open>1=1\<close>, or conditions \<open>column operator ?\<close> joined by
  \<open>AND\<close>, the tokens separated by single spaces.\<close>

fun split_spaces :: "string \<Rightarrow> string \<Rightarrow> string list" where
  "split_spaces acc [] = [rev acc]"
| "split_spaces acc (c # cs) =
     (if c = CHR '' '' then rev acc # split_spaces [] cs else split_spaces (c # acc) cs)"

fun parse_conditions :: "string list \<Rightarrow> (string \<times> string) list option" where
  "parse_conditions [c, operator, q] =
     (if q = ''?'' \<and> c \<noteq> [] \<and> operator \<in> set [''='', ''>'', ''<'', ''LIKE''] then Some [(c, operator)]
      else None)"
| "parse_conditions (c # operator # q # a # rest) =
     (if q = ''?'' \<and> a = ''AND'' \<and> c \<noteq> [] \<and> operator \<in> set [''='', ''>'', ''<'', ''LIKE'']
      then map_option ((#) (c, operator)) (parse_conditions rest)
      else None)"
| "parse_conditions _ = None"

definition parse_where :: "string \<Rightarrow> (string \<times> string) list option" where
  "parse_where w = (if w = ''1=1'' then Some [] else parse_conditions (split_spaces [] w))"

definition eval_condition :: "row \<Rightarrow> (string \<times> string) \<times> sqlval \<Rightarrow> bool" where
  "eval_condition r cp =
     (case cp of
        ((c, operator), p) \<Rightarrow>
          if operator = ''='' then sql_eq (col_value r c) p
          else if operator = ''>'' then sql_less p (col_value r c)
          else if operator = ''<'' then sql_less (col_value r c) p
          else sql_like (col_value r c) p)"

definition project :: "string list \<Rightarrow> row \<Rightarrow> sqlval list" where
  "project cols r = map (col_value r) cols"

definition no_such_table :: "string \<Rightarrow> error" where
  "no_such_table t = StorageError (''no such table: '' @ t)"

definition bad_bindings :: error where
  "bad_bindings = StorageError ''Incorrect number of bindings supplied''"

definition bad_columns :: error where
  "bad_columns = StorageError ''no such column''"

definition syntax_error :: error where
  "syntax_error = StorageError ''syntax error''"

definition result_rows :: "sqlval list list \<Rightarrow> cursor" where
  "result_rows rs = \<lparr>cur_rows = rs, lastrowid = None\<rparr>"

text \<open>The columns an \<open>INSERT\<close> or \<open>UPDATE\<close> of the mapper names are declared fields,
  never \<open>id\<close>; the model rejects any other column list.\<close>

definition writable_columns :: "table \<Rightarrow> string list \<Rightarrow> bool" where
  "writable_columns t cols = (distinct cols \<and> list_all (\<lambda>c. map_of (tbl_columns t) c \<noteq> None) cols)"

definition sqlite_execute :: "stmt \<Rightarrow> sqlval list \<Rightarrow> database \<Rightarrow> error + (cursor \<times> database)" where
  "sqlite_execute q ps db =
     (case q of
        TableExists \<Rightarrow>
          (case ps of
             [SText n] \<Rightarrow> Inr (result_rows (if map_of db n \<noteq> None then [[SText n]] else []), db)
           | [p] \<Rightarrow> Inr (result_rows [], db)
           | _ \<Rightarrow> Inl bad_bindings)
      | CreateTable t cols \<Rightarrow>
          if ps \<noteq> [] then Inl bad_bindings
          else if map_of db t \<noteq> None then Inr (result_rows [], db)
          else if \<not> distinct (''id'' # map fst cols) then Inl (StorageError ''duplicate column name'')
          else Inr (result_rows [], db @ [(t, \<lparr>tbl_columns = cols, tbl_rows = [], tbl_seq = 0\<rparr>)])
      | InsertInto t cols \<Rightarrow>
          if cols = [] then Inl syntax_error
          else (case map_of db t of
                  None \<Rightarrow> Inl (no_such_table t)
                | Some tb \<Rightarrow>
                    if \<not> writable_columns tb cols then Inl bad_columns
                    else if length ps \<noteq> length cols then Inl bad_bindings
                    else
                      (let rowid = tbl_seq tb + 1;
                           r = (''id'', SInt rowid)
                                 # map (\<lambda>(c, ty). (c, col_value (zip cols ps) c)) (tbl_columns tb)
                       in Inr (\<lparr>cur_rows = [], lastrowid = Some rowid\<rparr>,
                               AList.update t (tb\<lparr>tbl_rows := tbl_rows tb @ [r], tbl_seq := rowid\<rparr>) db)))
      | UpdateSet t cols \<Rightarrow>
          if cols = [] then Inl syntax_error
          else (case map_of db t of
                  None \<Rightarrow> Inl (no_such_table t)
                | Some tb \<Rightarrow>
                    if \<not> writable_columns tb cols then Inl bad_columns
                    else if length ps \<noteq> Suc (length cols) then Inl bad_bindings
                    else
                      (let upd = (\<lambda>r. if sql_eq (col_value r ''id'') (last ps)
                                        then map (\<lambda>(c, v). (c, case map_of (zip cols ps) c of
                                                                  None \<Rightarrow> v | Some v' \<Rightarrow> v')) r
                                        else r)
                       in Inr (result_rows [],
                               AList.update t (tb\<lparr>tbl_rows := map upd (tbl_rows tb)\<rparr>) db)))
      | DeleteFrom t \<Rightarrow>
          (case map_of db t of
             None \<Rightarrow> Inl (no_such_table t)
           | Some tb \<Rightarrow>
               (case ps of
                  [p] \<Rightarrow>
                    Inr (result_rows [],
                         AList.update t
                           (tb\<lparr>tbl_rows := filter (\<lambda>r. \<not> sql_eq (col_value r ''id'') p) (tbl_rows tb)\<rparr>) db)
                | _ \<Rightarrow> Inl bad_bindings))
      | SelectById t cols \<Rightarrow>
          (case map_of db t of
             None \<Rightarrow> Inl (no_such_table t)
           | Some tb \<Rightarrow>
               if \<not> list_all (has_column tb) cols then Inl bad_columns
               else (case ps of
                       [p] \<Rightarrow>
                         Inr (result_rows
                                (map (project cols)
                                   (filter (\<lambda>r. sql_eq (col_value r ''id'') p) (tbl_rows tb))), db)
                     | _ \<Rightarrow> Inl bad_bindings))
      | SelectAll t cols \<Rightarrow>
          (case map_of db t of
             None \<Rightarrow> Inl (no_such_table t)
           | Some tb \<Rightarrow>
               if \<not> list_all (has_column tb) cols then Inl bad_columns
               else if ps \<noteq> [] then Inl bad_bindings
               else Inr (result_rows (map (project cols) (tbl_rows tb)), db))
      | SelectWhere t cols w \<Rightarrow>
          (case map_of db t of
             None \<Rightarrow> Inl (no_such_table t)
           | Some tb \<Rightarrow>
               if \<not> list_all (has_column tb) cols then Inl bad_columns
               else (case parse_where w of
                       None \<Rightarrow> Inl syntax_error
                     | Some conds \<Rightarrow>
                         if \<not> list_all (has_column tb) (map fst conds) then Inl bad_columns
                         else if length ps \<noteq> length conds then Inl bad_bindings
                         else Inr (result_rows
                                     (map (project cols)
                                        (filter (\<lambda>r. list_all (eval_condition r) (zip conds ps))
                                           (tbl_rows tb))), db))))"

section \<open>connection.py and the state of the process\<close>

text \<open>
  The state that the operations of \<open>Model\<close> read and change: whether
  \<open>Model.configure_db\<close> has set the class attribute \<open>_db\<close>, the database behind the
  connection, and what a spy on the connection sees: every call of \<open>execute\<close>, with the
  SQL text and the parameters, in order.
\<close>

record world =
  configured :: bool
  store :: database
  executed :: "(string \<times> pyval list) list"

text \<open>An operation runs in a state and either raises or returns, leaving a state
  behind either way.\<close>

type_synonym 'a action = "world \<Rightarrow> (error + 'a) \<times> world"

definition returnE :: "'a \<Rightarrow> 'a action" where
  "returnE x w = (Inr x, w)"

definition raiseE :: "error \<Rightarrow> 'a action" where
  "raiseE e w = (Inl e, w)"

definition bindE :: "'a action \<Rightarrow> ('a \<Rightarrow> 'b action) \<Rightarrow> 'b action" where
  "bindE m k w = (case m w of (Inl e, w') \<Rightarrow> (Inl e, w') | (Inr x, w') \<Rightarrow> k x w')"

definition liftE :: "error + 'a \<Rightarrow> 'a action" where
  "liftE r = (case r of Inl e \<Rightarrow> raiseE e | Inr x \<Rightarrow> returnE x)"

text \<open>\<open>DatabaseConnection.execute(query, parameters)\<close>: the call is seen by the spy,
  then the driver binds the parameters and runs the statement.\<close>

definition db_execute :: "stmt \<Rightarrow> pyval list \<Rightarrow> cursor action" where
  "db_execute q params w =
     (let w' = w\<lparr>executed := executed w @ [(sql_text q, params)]\<rparr> in
      case bind_params params of
        Inl e \<Rightarrow> (Inl e, w')
      | Inr ps \<Rightarrow>
          (case sqlite_execute q ps (store w') of
             Inl e \<Rightarrow> (Inl e, w')
           | Inr (cur, db') \<Rightarrow> (Inr cur, w'\<lparr>store := db'\<rparr>)))"

text \<open>\<open>DatabaseConnection.commit()\<close>, always called after an \<open>execute\<close>, which has
  opened the connection.\<close>

definition db_commit :: "unit action" where
  "db_commit = returnE ()"

definition configure_db :: "world \<Rightarrow> world" where
  "configure_db w = w\<lparr>configured := True\<rparr>"

section \<open>base_model.py: Model\<close>

definition ensure_db_connection :: "unit action" where
  "ensure_db_connection w =
     (if \<not> configured w then
        raiseE (RuntimeError
          ''Database connection is not configured. Call Model.configure_db(database_path) before using models.'') w
      else returnE () w)"

text \<open>\<open>getattr(self, name, None)\<close> for a data attribute: the instance's dictionary
  first, then the class and its bases. The mapper reads \<open>id\<close> and the declared fields
  this way, all of which \<open>__init__\<close> has set on the instance; a name that is only a
  function of the class is outside what it reads, and gives \<open>None\<close> here.\<close>

definition getattr :: "cls \<Rightarrow> inst \<Rightarrow> string \<Rightarrow> pyval" where
  "getattr c self name =
     (case map_of self name of
        Some v \<Rightarrow> v
      | None \<Rightarrow> (case class_getattr c name of Some (Data v) \<Rightarrow> v | _ \<Rightarrow> PNone))"

text \<open>\<open>Model.__init__(self, *args, **kwargs)\<close>.\<close>

definition Model_init :: "cls \<Rightarrow> pyval list \<Rightarrow> (string \<times> pyval) list \<Rightarrow> inst" where
  "Model_init c args kwargs0 =
     (let self0 = [(''id'', (case map_of kwargs0 ''id'' of None \<Rightarrow> PNone | Some v \<Rightarrow> v))];
          kwargs1 = AList.delete ''id'' kwargs0;
          kwargs =
            (case lookup_meta c of
               None \<Rightarrow> kwargs1
             | Some m \<Rightarrow>
                 fold (\<lambda>(field_name, arg_value). AList.update field_name arg_value)
                   (zip (map fst (meta_fields m)) args) kwargs1);
          self1 =
            (case lookup_meta c of
               None \<Rightarrow> self0
             | Some m \<Rightarrow>
                 fold (\<lambda>field_name.
                         AList.update field_name
                           (case map_of kwargs field_name of Some v \<Rightarrow> v | None \<Rightarrow> PNone))
                   (map fst (meta_fields m)) self0)
      in fold (\<lambda>(key, v). AList.update key v) kwargs self1)"

text \<open>\<open>_validate\<close>: \<open>self.validate\<close> is looked up on the instance first, where a data
  value of that name is not callable, then on the class.\<close>

definition validate :: "cls \<Rightarrow> inst \<Rightarrow> error option" where
  "validate c self =
     (case map_of self ''validate'' of
        Some v \<Rightarrow> None
      | None \<Rightarrow> (case class_getattr c ''validate'' of Some (Func hook) \<Rightarrow> hook self | _ \<Rightarrow> None))"

definition table_exists :: "string \<Rightarrow> bool action" where
  "table_exists table_name =
     bindE (db_execute TableExists [PStr table_name]) (\<lambda>cursor. returnE (cur_rows cursor \<noteq> []))"

definition create_table_sql :: "cls \<Rightarrow> error + stmt" where
  "create_table_sql c =
     (case lookup_meta c of
        None \<Rightarrow> Inl (not_initialized c)
      | Some m \<Rightarrow>
          if is_abstract c then
            Inl (RuntimeError (''Cannot create table for abstract model '' @ cls_name c))
          else Inr (CreateTable (meta_table_name m)
                      (map (\<lambda>(field_name, fm). (field_name, fm_sqlite_type fm)) (meta_fields m))))"

definition create_table :: "cls \<Rightarrow> bool \<Rightarrow> unit action" where
  "create_table c check_if_exists =
     (if is_abstract c then
        raiseE (RuntimeError (''Cannot create table for abstract model '' @ cls_name c))
      else
        bindE ensure_db_connection (\<lambda>_.
        bindE (liftE (get_table_name c)) (\<lambda>table_name.
        bindE (if check_if_exists then table_exists table_name else returnE False) (\<lambda>found.
          if found then returnE ()
          else
            bindE (liftE (create_table_sql c)) (\<lambda>sql.
            bindE (db_execute sql []) (\<lambda>_.
            db_commit))))))"

definition ensure_table :: "cls \<Rightarrow> unit action" where
  "ensure_table c = (if is_abstract c then returnE () else create_table c True)"

definition to_db_dict :: "cls \<Rightarrow> inst \<Rightarrow> error + (string \<times> pyval) list" where
  "to_db_dict c self =
     (case lookup_meta c of
        None \<Rightarrow> Inl (not_initialized c)
      | Some m \<Rightarrow>
          Inr (fold (\<lambda>(field_name, fm).
                       AList.update field_name
                         (to_db_value (getattr c self field_name) (fm_annotation fm)))
                 (meta_fields m) []))"

text \<open>\<open>_from_db_row(row, column_names)\<close>, then \<open>cls(**data)\<close>.\<close>

definition from_db_row :: "cls \<Rightarrow> sqlval list \<Rightarrow> string list \<Rightarrow> error + inst" where
  "from_db_row c r column_names =
     (case lookup_meta c of
        None \<Rightarrow> Inl (not_initialized c)
      | Some m \<Rightarrow>
          Inr (Model_init c []
                 (fold (\<lambda>(column_name, x) data.
                          if column_name = ''id'' then AList.update ''id'' (py_of_sql x) data
                          else (case map_of (meta_fields m) column_name of
                                  Some fm \<Rightarrow>
                                    AList.update column_name
                                      (from_db_value (py_of_sql x) (fm_annotation fm)) data
                                | None \<Rightarrow> data))
                    (zip column_names r) [])))"

fun from_db_rows :: "cls \<Rightarrow> sqlval list list \<Rightarrow> string list \<Rightarrow> error + inst list" where
  "from_db_rows c [] column_names = Inr []"
| "from_db_rows c (r # rs) column_names =
     (case from_db_row c r column_names of
        Inl e \<Rightarrow> Inl e
      | Inr x \<Rightarrow>
          (case from_db_rows c rs column_names of Inl e \<Rightarrow> Inl e | Inr xs \<Rightarrow> Inr (x # xs)))"

definition lastrowid_value :: "cursor \<Rightarrow> pyval" where
  "lastrowid_value cursor = (case lastrowid cursor of None \<Rightarrow> PNone | Some i \<Rightarrow> PInt i)"

text \<open>The \<open>INSERT\<close> that \<open>create\<close> and \<open>save\<close> share; the result is the instance with
  \<open>id\<close> set to \<open>cursor.lastrowid\<close>.\<close>

definition insert_row :: "string \<Rightarrow> (string \<times> pyval) list \<Rightarrow> inst \<Rightarrow> inst action" where
  "insert_row table_name db_dict self =
     bindE (db_execute (InsertInto table_name (map fst db_dict)) (map snd db_dict)) (\<lambda>cursor.
     bindE db_commit (\<lambda>_.
     returnE (AList.update ''id'' (lastrowid_value cursor) self)))"

definition Model_create :: "cls \<Rightarrow> (string \<times> pyval) list \<Rightarrow> inst action" where
  "Model_create c kwargs =
     (if is_abstract c then
        raiseE (RuntimeError (''Cannot create instance of abstract model '' @ cls_name c))
      else
        (let self = Model_init c [] kwargs in
         case validate c self of
           Some e \<Rightarrow> raiseE e
         | None \<Rightarrow>
             bindE (ensure_table c) (\<lambda>_.
             bindE ensure_db_connection (\<lambda>_.
             bindE (liftE (get_table_name c)) (\<lambda>table_name.
             bindE (liftE (to_db_dict c self)) (\<lambda>db_dict.
             insert_row table_name db_dict self))))))"

text \<open>\<open>save\<close> returns \<open>self.id\<close>; the instance it has changed is returned with it.\<close>

definition Model_save :: "cls \<Rightarrow> inst \<Rightarrow> (pyval \<times> inst) action" where
  "Model_save c self =
     (if is_abstract c then
        raiseE (RuntimeError (''Cannot save instance of abstract model '' @ cls_name c))
      else
        (case validate c self of
           Some e \<Rightarrow> raiseE e
         | None \<Rightarrow>
             bindE (ensure_table c) (\<lambda>_.
             bindE ensure_db_connection (\<lambda>_.
             bindE (liftE (get_table_name c)) (\<lambda>table_name.
             bindE (liftE (to_db_dict c self)) (\<lambda>db_dict.
               if getattr c self ''id'' = PNone then
                 bindE (insert_row table_name db_dict self) (\<lambda>self'.
                 returnE (getattr c self' ''id'', self'))
               else
                 bindE (db_execute (UpdateSet table_name (map fst db_dict))
                          (map snd db_dict @ [getattr c self ''id''])) (\<lambda>_.
                 bindE db_commit (\<lambda>_.
                 returnE (getattr c self ''id'', self)))))))))"

text \<open>\<open>delete\<close> returns nothing; the instance it has changed is the result.\<close>

definition Model_delete :: "cls \<Rightarrow> inst \<Rightarrow> inst action" where
  "Model_delete c self =
     (if is_abstract c then
        raiseE (RuntimeError (''Cannot delete instance of abstract model '' @ cls_name c))
      else if getattr c self ''id'' = PNone then
        raiseE (RuntimeError ''Cannot delete instance without id'')
      else
        bindE ensure_db_connection (\<lambda>_.
        bindE (liftE (get_table_name c)) (\<lambda>table_name.
        bindE (db_execute (DeleteFrom table_name) [getattr c self ''id'']) (\<lambda>_.
        bindE db_commit (\<lambda>_.
        returnE (AList.update ''id'' PNone self))))))"

definition Model_get :: "cls \<Rightarrow> pyval \<Rightarrow> inst option action" where
  "Model_get c ident =
     (if is_abstract c then
        raiseE (RuntimeError (''Cannot get instance of abstract model '' @ cls_name c))
      else
        bindE (ensure_table c) (\<lambda>_.
        bindE ensure_db_connection (\<lambda>_.
        bindE (liftE (get_table_name c)) (\<lambda>table_name.
        bindE (liftE (get_fields c)) (\<lambda>fields.
          (let column_names = ''id'' # map fst fields in
           bindE (db_execute (SelectById table_name column_names) [ident]) (\<lambda>cursor.
             case cur_rows cursor of
               [] \<Rightarrow> returnE None
             | r # rs \<Rightarrow> bindE (liftE (from_db_row c r column_names)) (\<lambda>x. returnE (Some x)))))))))"

definition Model_all :: "cls \<Rightarrow> inst list action" where
  "Model_all c =
     (if is_abstract c then
        raiseE (RuntimeError (''Cannot get instances of abstract model '' @ cls_name c))
      else
        bindE (ensure_table c) (\<lambda>_.
        bindE ensure_db_connection (\<lambda>_.
        bindE (liftE (get_table_name c)) (\<lambda>table_name.
        bindE (liftE (get_fields c)) (\<lambda>fields.
          (let column_names = ''id'' # map fst fields in
           bindE (db_execute (SelectAll table_name column_names) []) (\<lambda>cursor.
           liftE (from_db_rows c (cur_rows cursor) column_names))))))))"

text \<open>The error of \<open>filter\<close> for a field name that the model does not have.\<close>

definition unknown_field :: "cls \<Rightarrow> string \<Rightarrow> error" where
  "unknown_field c field_name =
     ValueError (''Field '' @ [CHR 0x27] @ field_name @ [CHR 0x27]
                   @ '' does not exist in model '' @ cls_name c)"

text \<open>The loop of \<open>filter\<close> that checks every key's field name against the fields.\<close>

fun check_filter_fields ::
  "cls \<Rightarrow> (string \<times> field_meta) list \<Rightarrow> (string \<times> pyval) list \<Rightarrow> error option"
where
  "check_filter_fields c flds [] = None"
| "check_filter_fields c flds ((key, v) # kwargs) =
     (let (field_name, operator) = parse_filter_key key in
      if map_of flds field_name = None \<and> field_name \<noteq> ''id'' then
        Some (unknown_field c field_name)
      else check_filter_fields c flds kwargs)"

definition Model_filter :: "cls \<Rightarrow> (string \<times> pyval) list \<Rightarrow> inst list action" where
  "Model_filter c kwargs =
     (if is_abstract c then
        raiseE (RuntimeError (''Cannot filter instances of abstract model '' @ cls_name c))
      else
        bindE (ensure_table c) (\<lambda>_.
        bindE ensure_db_connection (\<lambda>_.
        bindE (liftE (get_table_name c)) (\<lambda>table_name.
        bindE (liftE (get_fields c)) (\<lambda>fields.
        bindE (liftE (parse_filters kwargs)) (\<lambda>(where_clause, vals).
          (case check_filter_fields c fields kwargs of
             Some e \<Rightarrow> raiseE e
           | None \<Rightarrow>
               (let column_names = ''id'' # map fst fields in
                bindE (db_execute (SelectWhere table_name column_names where_clause) vals) (\<lambda>cursor.
                liftE (from_db_rows c (cur_rows cursor) column_names))))))))))"

section \<open>main.py and example declarations\<close>

text \<open>The model of \<open>main.py\<close>: \<open>name: str\<close>, \<open>email: str\<close>, \<open>age: int = 18\<close>, with
  \<open>Meta.db_table = "users"\<close>.\<close>

definition User :: cls where
  "User =
     Cls ''User'' (Some Model) (Some \<lparr>abstract = None, db_table = Some (Some ''users'')\<rparr>)
       [(''name'', StrT), (''email'', StrT), (''age'', IntT)]
       [(''age'', Data (PInt 18))]"

text \<open>A model declared abstract: \<open>class Shape(Model)\<close> with \<open>Meta.abstract = True\<close> and
  one annotated field.\<close>

definition Shape :: cls where
  "Shape =
     Cls ''Shape'' (Some Model) (Some \<lparr>abstract = Some True, db_table = None\<rparr>)
       [(''label'', StrT)] []"

text \<open>A model with a field annotated \<open>int | str | float\<close>.\<close>

definition Reading :: cls where
  "Reading =
     Cls ''Reading'' (Some Model) None
       [(''amount'', Generic ''Union'' [IntT, StrT, FloatT])] []"

text \<open>A model with a field annotated \<open>int | str\<close>.\<close>

definition Quote :: cls where
  "Quote =
     Cls ''Quote'' (Some Model) None
       [(''price'', Generic ''Union'' [IntT, StrT])] []"

text \<open>A model with a validation hook:
  \<^verbatim>\<open>def validate(self):
      if self.age is None: raise ValueError("age is required")
      if self.age < 18: raise ValueError("too young")\<close>\<close>

definition Adult :: cls where
  "Adult =
     Cls ''Adult'' (Some Model) None
       [(''name'', StrT), (''age'', IntT)]
       [(''validate'',
         Func (\<lambda>self. case map_of self ''age'' of
                         Some (PInt a) \<Rightarrow> if a < 18 then Some (ValueError ''too young'') else None
                       | _ \<Rightarrow> Some (ValueError ''age is required'')))]"

text \<open>The state after \<open>Model.configure_db\<close> on a new database file.\<close>

definition fresh_db :: world where
  "fresh_db = \<lparr>configured = True, store = [], executed = []\<rparr>"

definition alice_kwargs :: "(string \<times> pyval) list" where
  "alice_kwargs =
     [(''name'', PStr ''Alice''), (''email'', PStr ''alice@mail.com''), (''age'', PInt 25)]"

definition bob_kwargs :: "(string \<times> pyval) list" where
  "bob_kwargs = [(''name'', PStr ''Bob''), (''email'', PStr ''bob@mail.com'')]"

text \<open>The scenario, step by step, each step in the state the step before it left:
  create Alice, create Bob without an age, filter on \<open>age__gt=18\<close>, delete Alice, get
  her former identity, list all rows.\<close>

definition alice :: inst where
  "alice =
     [(''id'', PInt 1), (''name'', PStr ''Alice''), (''email'', PStr ''alice@mail.com''),
      (''age'', PInt 25)]"

definition bob :: inst where
  "bob =
     [(''id'', PInt 2), (''name'', PStr ''Bob''), (''email'', PStr ''bob@mail.com''),
      (''age'', PNone)]"

definition step_create_alice :: "(error + inst) \<times> world" where
  "step_create_alice = Model_create User alice_kwargs fresh_db"

definition step_create_bob :: "(error + inst) \<times> world" where
  "step_create_bob = Model_create User bob_kwargs (snd step_create_alice)"

definition step_filter :: "(error + inst list) \<times> world" where
  "step_filter = Model_filter User [(''age__gt'', PInt 18)] (snd step_create_bob)"

definition step_delete :: "(error + inst) \<times> world" where
  "step_delete = Model_delete User alice (snd step_filter)"

definition step_get :: "(error + inst option) \<times> world" where
  "step_get = Model_get User (PInt 1) (snd step_delete)"

definition step_all :: "(error + inst list) \<times> world" where
  "step_all = Model_all User (snd step_get)"

text \<open>The values of a column in a table of the database, row by row.\<close>

definition stored_column :: "world \<Rightarrow> string \<Rightarrow> string \<Rightarrow> sqlval list option" where
  "stored_column w t c =
     map_option (\<lambda>tb. map (\<lambda>r. col_value r c) (tbl_rows tb)) (map_of (store w) t)"

section \<open>What an operation can raise\<close>

text \<open>\<open>raises_only P m\<close>: every error that the operation \<open>m\<close> raises satisfies \<open>P\<close>.\<close>

definition raises_only :: "(error \<Rightarrow> bool) \<Rightarrow> 'a action \<Rightarrow> bool" where
  "raises_only P m = (\<forall>w e. fst (m w) = Inl e \<longrightarrow> P e)"

definition is_storage_error :: "error \<Rightarrow> bool" where
  "is_storage_error e = (case e of StorageError s \<Rightarrow> True | _ \<Rightarrow> False)"

definition is_unsupported_operator :: "error \<Rightarrow> bool" where
  "is_unsupported_operator e =
     (case e of
        ValueError s \<Rightarrow> prefix ''Unsupported filter operator: '' s
      | _ \<Rightarrow> False)"

definition benign :: "error \<Rightarrow> bool" where
  "benign e = (\<not> is_unsupported_operator e)"




section \<open>Strings: occurrences of a separator\<close>

lemma rfind_from_Some:
  "rfind_from sub s n = Some i \<Longrightarrow>
     i \<le> n \<and> prefix sub (drop i s) \<and> (\<forall>j. i < j \<and> j \<le> n \<longrightarrow> \<not> prefix sub (drop j s))"
proof (induction n)
  case 0
  then show ?case by (auto split: if_splits)
next
  case (Suc n)
  then show ?case
    by (auto split: if_splits simp: le_Suc_eq)
qed

lemma rfind_from_None:
  "rfind_from sub s n = None \<Longrightarrow> j \<le> n \<Longrightarrow> \<not> prefix sub (drop j s)"
proof (induction n)
  case 0
  then show ?case by (auto split: if_splits)
next
  case (Suc n)
  then show ?case
    by (auto split: if_splits simp: le_Suc_eq)
qed

lemma prefix_drop_occurrence:
  "prefix sub (drop i s) \<Longrightarrow> i \<le> length s \<Longrightarrow> \<exists>v. s = take i s @ sub @ v"
proof -
  assume "prefix sub (drop i s)" "i \<le> length s"
  then obtain v where "drop i s = sub @ v" by (auto simp: prefix_def)
  then have "s = take i s @ sub @ v" by (metis append_take_drop_id)
  then show ?thesis by blast
qed

text \<open>\<open>rfind\<close> finds the last occurrence: if no occurrence of \<open>sub\<close> in \<open>key\<close> starts
  after the prefix \<open>f\<close>, the index found is the length of \<open>f\<close>.\<close>

lemma str_rfind_last:
  assumes key: "key = f @ sub @ s"
    and last: "\<forall>f' s'. key = f' @ sub @ s' \<longrightarrow> length f' \<le> length f"
  shows "str_rfind sub key = Some (length f)"
proof -
  let ?n = "length key - length sub"
  have len: "length sub \<le> length key" and fn: "length f \<le> ?n"
    using key by simp_all
  have pf: "prefix sub (drop (length f) key)"
    using key by simp
  have "rfind_from sub key ?n \<noteq> None"
    using rfind_from_None [of sub key ?n "length f"] fn pf by blast
  then obtain i where i: "rfind_from sub key ?n = Some i" by blast
  from rfind_from_Some [OF i]
  have in': "i \<le> ?n" and ip: "prefix sub (drop i key)"
    and imax: "\<forall>j. i < j \<and> j \<le> ?n \<longrightarrow> \<not> prefix sub (drop j key)"
    by blast+
  have "\<not> i < length f" using imax fn pf by blast
  moreover have "i \<le> length f"
  proof -
    from in' have "i \<le> length key" by simp
    from prefix_drop_occurrence [OF ip this] obtain v where "key = take i key @ sub @ v" ..
    with last have "length (take i key) \<le> length f" by blast
    with \<open>i \<le> length key\<close> show ?thesis by simp
  qed
  ultimately have "i = length f" by simp
  with i len show ?thesis by (simp add: str_rfind_def)
qed

text \<open>Conversely, no occurrence starts after the index that \<open>rfind\<close> returns.\<close>

lemma str_rfind_is_last:
  assumes r: "str_rfind sub key = Some i" and key: "key = f' @ sub @ s'"
  shows "length f' \<le> i"
proof (rule ccontr)
  assume "\<not> length f' \<le> i"
  then have lt: "i < length f'" by simp
  from r have rf: "rfind_from sub key (length key - length sub) = Some i"
    by (simp add: str_rfind_def split: if_splits)
  have "length f' \<le> length key - length sub" using key by simp
  moreover have "prefix sub (drop (length f') key)" using key by simp
  ultimately show False using rfind_from_Some [OF rf] lt by blast
qed

lemma rsplit1_last:
  assumes "key = f @ sub @ s"
    and "\<forall>f' s'. key = f' @ sub @ s' \<longrightarrow> length f' \<le> length f"
  shows "rsplit1 sub key = [f, s]"
  using str_rfind_last [OF assms] assms(1) by (simp add: rsplit1_def)

lemma str_find_None: "str_find sub s = None \<longleftrightarrow> (\<forall>u v. s \<noteq> u @ sub @ v)"
proof (induction s)
  case Nil
  then show ?case by auto
next
  case (Cons c cs)
  show ?case
  proof (cases "prefix sub (c # cs)")
    case True
    then obtain v where "c # cs = sub @ v" by (auto simp: prefix_def)
    then have "c # cs = [] @ sub @ v" by simp
    with True show ?thesis by (metis str_find.simps(2) option.distinct(1))
  next
    case False
    have "(\<forall>u v. c # cs \<noteq> u @ sub @ v) \<longleftrightarrow> (\<forall>u v. cs \<noteq> u @ sub @ v)"
    proof
      assume a: "\<forall>u v. c # cs \<noteq> u @ sub @ v"
      show "\<forall>u v. cs \<noteq> u @ sub @ v"
      proof (intro allI notI)
        fix u v assume "cs = u @ sub @ v"
        then have "c # cs = (c # u) @ sub @ v" by simp
        with a show False by blast
      qed
    next
      assume a: "\<forall>u v. cs \<noteq> u @ sub @ v"
      show "\<forall>u v. c # cs \<noteq> u @ sub @ v"
      proof (intro allI notI)
        fix u v assume e: "c # cs = u @ sub @ v"
        show False
        proof (cases u)
          case Nil
          with e have "prefix sub (c # cs)" by (simp add: prefix_def)
          with False show False by simp
        next
          case (Cons d u')
          with e have "cs = u' @ sub @ v" by simp
          with a show False by blast
        qed
      qed
    qed
    with False Cons show ?thesis by simp
  qed
qed

section \<open>The value codec\<close>




section \<open>Filter keys\<close>

lemma operator_known:
  "(map_of OPERATORS (''__'' @ s) \<noteq> None) = (s \<in> {''exact'', ''gt'', ''lt'', ''like''})"
  by (auto simp: OPERATORS_def)

text \<open>
  Claim C6. A key that contains no double underscore is returned whole, with the
  operator \<open>__exact\<close>. For a key that contains one, let \<open>f\<close> be the part before its last
  double underscore and \<open>s\<close> the part after it (no occurrence of the double underscore
  starts later than the one after \<open>f\<close>): if \<open>s\<close> is one of \<open>exact\<close>, \<open>gt\<close>, \<open>lt\<close>,
  \<open>like\<close>, the parser returns the field name \<open>f\<close> and the operator \<open>__s\<close>; otherwise it
  returns the whole key, suffix included, with the operator \<open>__exact\<close>.
\<close>

theorem parse_filter_key_grammar:
  "((\<forall>f s. key \<noteq> f @ ''__'' @ s) \<longrightarrow> parse_filter_key key = (key, ''__exact'')) \<and>
   (\<forall>f s. key = f @ ''__'' @ s \<and> (\<forall>f' s'. key = f' @ ''__'' @ s' \<longrightarrow> length f' \<le> length f) \<longrightarrow>
      parse_filter_key key =
        (if s \<in> {''exact'', ''gt'', ''lt'', ''like''} then (f, ''__'' @ s) else (key, ''__exact'')))"
proof (intro conjI impI allI)
  assume "\<forall>f s. key \<noteq> f @ ''__'' @ s"
  then have "str_find ''__'' key = None" by (simp add: str_find_None)
  then show "parse_filter_key key = (key, ''__exact'')" by (simp add: parse_filter_key_def)
next
  fix f s
  assume a: "key = f @ ''__'' @ s \<and> (\<forall>f' s'. key = f' @ ''__'' @ s' \<longrightarrow> length f' \<le> length f)"
  then have parts: "rsplit1 ''__'' key = [f, s]" by (intro rsplit1_last) blast+
  from a have "str_find ''__'' key \<noteq> None" unfolding str_find_None by blast
  with parts show "parse_filter_key key =
        (if s \<in> {''exact'', ''gt'', ''lt'', ''like''} then (f, ''__'' @ s) else (key, ''__exact''))"
    unfolding parse_filter_key_def Let_def using operator_known [of s] by auto
qed

theorem parse_filter_key_grammar_witness:
  "parse_filter_key ''name'' = (''name'', ''__exact'') \<and>
   parse_filter_key ''age__gt'' = (''age'', ''__gt'') \<and>
   parse_filter_key ''a___like'' = (''a_'', ''__like'') \<and>
   parse_filter_key ''age__between'' = (''age__between'', ''__exact'')"
proof -
  have none: "\<forall>f s. ''name'' \<noteq> f @ ''__'' @ s"
    by (rule str_find_None [THEN iffD1]) simp
  have l1: "\<forall>f' s'. ''age__gt'' = f' @ ''__'' @ s' \<longrightarrow> length f' \<le> length ''age''"
  proof (intro allI impI)
    fix f' s' assume e: "''age__gt'' = f' @ ''__'' @ s'"
    have "str_rfind ''__'' ''age__gt'' = Some (length ''age'')" by code_simp
    from str_rfind_is_last [OF this e] show "length f' \<le> length ''age''" .
  qed
  have l2: "\<forall>f' s'. ''a___like'' = f' @ ''__'' @ s' \<longrightarrow> length f' \<le> length ''a_''"
  proof (intro allI impI)
    fix f' s' assume e: "''a___like'' = f' @ ''__'' @ s'"
    have "str_rfind ''__'' ''a___like'' = Some (length ''a_'')" by code_simp
    from str_rfind_is_last [OF this e] show "length f' \<le> length ''a_''" .
  qed
  have l3: "\<forall>f' s'. ''age__between'' = f' @ ''__'' @ s' \<longrightarrow> length f' \<le> length ''age''"
  proof (intro allI impI)
    fix f' s' assume e: "''age__between'' = f' @ ''__'' @ s'"
    have "str_rfind ''__'' ''age__between'' = Some (length ''age'')" by code_simp
    from str_rfind_is_last [OF this e] show "length f' \<le> length ''age''" .
  qed
  have "parse_filter_key ''name'' = (''name'', ''__exact'')"
    using parse_filter_key_grammar [of "''name''"] none by blast
  moreover have "parse_filter_key ''age__gt'' = (''age'', ''__gt'')"
    using parse_filter_key_grammar
            [of "''age__gt''", THEN conjunct2, rule_format, of "''age''" "''gt''"] l1
    by simp
  moreover have "parse_filter_key ''a___like'' = (''a_'', ''__like'')"
    using parse_filter_key_grammar
            [of "''a___like''", THEN conjunct2, rule_format, of "''a_''" "''like''"] l2
    by simp
  moreover have "parse_filter_key ''age__between'' = (''age__between'', ''__exact'')"
    using parse_filter_key_grammar
            [of "''age__between''", THEN conjunct2, rule_format, of "''age''" "''between''"] l3
    by simp
  ultimately show ?thesis by blast
qed

section \<open>Field metadata\<close>

lemma get_field_type_two: 
  "\<not> is_none_arg a \<Longrightarrow> \<not> is_none_arg b \<Longrightarrow> get_field_type (Generic origin [a, b]) = None"
  by simp

lemma get_field_type_many:
  "length args \<ge> 3 \<Longrightarrow> get_field_type (Generic origin args) = TYPE_MAPPING (args ! 0)"
  by (cases args) auto

lemma add_field_keys:
  "k \<in> fst ` set (add_field c (n, ann) flds) \<Longrightarrow>
     k \<in> fst ` set flds \<or> (k = n \<and> get_field_type ann \<noteq> None \<and> n \<noteq> ''id'')"
proof -
  assume k: "k \<in> fst ` set (add_field c (n, ann) flds)"
  show ?thesis
  proof (cases "add_field c (n, ann) flds = flds")
    case True
    with k show ?thesis by simp
  next
    case False
    then obtain fm where "add_field c (n, ann) flds = AList.update n fm flds"
      and "get_field_type ann \<noteq> None" and "n \<noteq> ''id''"
      by (auto simp: add_field_def split: option.splits if_splits)
    with k dom_update [of n fm flds] show ?thesis by auto
  qed
qed


lemma fold_add_field_keys:
  "k \<in> fst ` set (fold (add_field c) hints acc) \<Longrightarrow>
     k \<in> fst ` set acc \<or>
     (\<exists>ann. (k, ann) \<in> set hints \<and> get_field_type ann \<noteq> None \<and> k \<noteq> ''id'')"
proof (induction hints arbitrary: acc)
  case Nil
  then show ?case by simp
next
  case (Cons h hints)
  obtain n ann where h: "h = (n, ann)" by (cases h)
  from Cons.prems have "k \<in> fst ` set (fold (add_field c) hints (add_field c (n, ann) acc))"
    by (simp add: h)
  from Cons.IH [OF this]
  consider "k \<in> fst ` set (add_field c (n, ann) acc)"
    | "\<exists>ann. (k, ann) \<in> set hints \<and> get_field_type ann \<noteq> None \<and> k \<noteq> ''id''"
    by blast
  then show ?case
  proof cases
    case 1
    from add_field_keys [OF this] show ?thesis unfolding h by auto
  next
    case 2
    then show ?thesis by auto
  qed
qed




lemma derive_fields_mapped:
  assumes "n \<in> fst ` set (derive_fields c hints)"
  shows "\<exists>ann. (n, ann) \<in> set hints \<and> get_field_type ann \<noteq> None"
  using fold_add_field_keys [of n c hints "[]"] assms by (auto simp: derive_fields_def)

lemma fold_update_distinct:
  "distinct (map fst acc) \<Longrightarrow> distinct (map fst (fold (\<lambda>(k, a). AList.update k a) anns acc))"
  by (induction anns arbitrary: acc) (auto simp: distinct_update)

lemma get_type_hints_distinct: "distinct (map fst (get_type_hints c))"
proof (induction c rule: get_type_hints.induct)
  case (1 name base nsMeta anns attrs)
  then show ?case
    by (cases base) (simp_all add: fold_update_distinct)
qed

lemma own_meta_fields:
  "own_meta c = Some m \<Longrightarrow> meta_fields m = derive_fields c (get_type_hints c) \<and> \<not> meta_abstract m"
  by (auto simp: own_meta_def Let_def split: if_splits)

lemma lookup_meta_own: "lookup_meta c = Some m \<Longrightarrow> \<exists>c'. own_meta c' = Some m"
proof (induction c rule: lookup_meta.induct)
  case (1 name base nsMeta anns attrs)
  then show ?case
    by (cases "own_meta (Cls name base nsMeta anns attrs)"; cases base) auto
qed


lemma lookup_meta_not_abstract: "lookup_meta c = Some m \<Longrightarrow> \<not> meta_abstract m"
  using lookup_meta_own [of c m] own_meta_fields by blast

lemma is_abstract_iff: "is_abstract c \<longleftrightarrow> lookup_meta c = None"
  using lookup_meta_not_abstract [of c] by (auto simp: is_abstract_def split: option.splits)

lemma Model_meta: "lookup_meta Model = Some \<lparr>meta_table_name = ''model'', meta_fields = [], meta_abstract = False\<rparr>"
  by code_simp

lemma is_model_lookup: "is_model c \<Longrightarrow> lookup_meta c \<noteq> None"
proof (induction c rule: is_model.induct)
  case (1 name base nsMeta anns attrs)
  show ?case
  proof (cases base)
    case None
    with 1 have "Cls name base nsMeta anns attrs = Model" by simp
    then show ?thesis using Model_meta by simp
  next
    case (Some b)
    with 1 have "lookup_meta b \<noteq> None" by simp
    with Some show ?thesis by (auto split: option.splits)
  qed
qed



text \<open>No class below \<open>Model\<close> is ever found abstract: a class declared abstract stores
  no \<open>_meta\<close> of its own, and the look-up then finds the \<open>_meta\<close> of an ancestor.\<close>

lemma model_never_abstract: "is_model c \<Longrightarrow> \<not> is_abstract c"
  using is_model_lookup [of c] by (simp add: is_abstract_iff)

text \<open>
  Claim C3 (as amended). An annotation with exactly two alternatives, neither of them
  \<open>None\<close>, has no field type, and a field annotated with an annotation that has no field
  type is not in the metadata of its class. An annotation with three or more
  alternatives is mapped as its first alternative alone is.
\<close>

theorem union_field_type:
  "(\<not> is_none_arg a \<and> \<not> is_none_arg b \<longrightarrow> get_field_type (Generic origin [a, b]) = None) \<and>
   (3 \<le> length args \<longrightarrow> get_field_type (Generic origin args) = TYPE_MAPPING (args ! 0)) \<and>
   (\<forall>m. own_meta c = Some m \<and> map_of (get_type_hints c) n = Some ann \<and>
        get_field_type ann = None \<longrightarrow> map_of (meta_fields m) n = None)"
proof (intro conjI impI allI)
  assume "\<not> is_none_arg a \<and> \<not> is_none_arg b"
  then show "get_field_type (Generic origin [a, b]) = None"
    by (simp add: get_field_type_two)
next
  assume "3 \<le> length args"
  then show "get_field_type (Generic origin args) = TYPE_MAPPING (args ! 0)"
    by (rule get_field_type_many)
next
  fix m
  assume a: "own_meta c = Some m \<and> map_of (get_type_hints c) n = Some ann \<and>
        get_field_type ann = None"
  then have mf: "meta_fields m = derive_fields c (get_type_hints c)"
    using own_meta_fields by blast
  show "map_of (meta_fields m) n = None"
  proof (rule ccontr)
    assume "map_of (meta_fields m) n \<noteq> None"
    then have "n \<in> fst ` set (derive_fields c (get_type_hints c))"
      unfolding mf by (simp add: map_of_eq_None_iff)
    from derive_fields_mapped [OF this] obtain ann'
      where i: "(n, ann') \<in> set (get_type_hints c)" and g: "get_field_type ann' \<noteq> None"
      by blast
    from map_of_is_SomeI [OF get_type_hints_distinct i] a have "ann' = ann" by simp
    with g a show False by simp
  qed
qed

theorem union_field_type_witness:
  "get_field_type (Generic ''Union'' [IntT, StrT]) = None \<and>
   get_field_type (Generic ''Union'' [StrT, IntT, NoneType]) = TYPE_MAPPING StrT \<and>
   (\<exists>m. own_meta Quote = Some m \<and>
        map_of (get_type_hints Quote) ''price'' = Some (Generic ''Union'' [IntT, StrT]) \<and>
        map_of (meta_fields m) ''price'' = None)"
proof -
  let ?m = "\<lparr>meta_table_name = ''model'', meta_fields = [], meta_abstract = False\<rparr>"
  let ?ann = "Generic ''Union'' [IntT, StrT]"
  note T = union_field_type [of IntT StrT "''Union''" "[StrT, IntT, NoneType]" Quote "''price''" ?ann]
  have n: "\<not> is_none_arg IntT \<and> \<not> is_none_arg StrT" by (simp add: is_none_arg_def)
  have o: "own_meta Quote = Some ?m" by code_simp
  have h: "map_of (get_type_hints Quote) ''price'' = Some ?ann" by code_simp
  have g: "get_field_type ?ann = None" using T n by blast
  have "get_field_type (Generic ''Union'' [StrT, IntT, NoneType]) = TYPE_MAPPING StrT"
    using T by simp
  moreover have "map_of (meta_fields ?m) ''price'' = None"
    using T o h g by blast
  ultimately show ?thesis using g o h by blast
qed

text \<open>As stated, C3 fails on a union of three types: \<open>int | str | float\<close> is mapped to an
  \<open>INTEGER\<close> field, and the field \<open>amount\<close> of \<open>Reading\<close> is in the metadata.\<close>

theorem union_of_three_is_mapped:
  "get_field_type (Generic ''Union'' [IntT, StrT, FloatT])
     = Some \<lparr>sqlite_type = ''INTEGER'', python_type = Tint\<rparr> \<and>
   map_option meta_fields (own_meta Reading)
     = Some [(''amount'',
              \<lparr>fm_annotation = Generic ''Union'' [IntT, StrT, FloatT],
               fm_sqlite_type = ''INTEGER'', fm_python_type = Tint\<rparr>)]"
  by code_simp

section \<open>Operations and their errors\<close>

lemma bindE_returnE [simp]: "bindE (returnE x) k = k x"
  by (rule ext) (simp add: bindE_def returnE_def)

lemma bindE_raiseE [simp]: "bindE (raiseE e) k = raiseE e"
  by (rule ext) (simp add: bindE_def raiseE_def)

lemma liftE_Inl [simp]: "liftE (Inl e) = raiseE e"
  by (simp add: liftE_def)

lemma liftE_Inr [simp]: "liftE (Inr x) = returnE x"
  by (simp add: liftE_def)

lemma bindE_Inl: "m w = (Inl e, w') \<Longrightarrow> bindE m k w = (Inl e, w')"
  by (simp add: bindE_def)

lemma bindE_Inr: "m w = (Inr x, w') \<Longrightarrow> bindE m k w = k x w'"
  by (simp add: bindE_def)

lemma raises_only_returnE: "raises_only P (returnE x)"
  by (simp add: raises_only_def returnE_def)

lemma raises_only_raiseE: "P e \<Longrightarrow> raises_only P (raiseE e)"
  by (simp add: raises_only_def raiseE_def)

lemma raises_only_bindE:
  "raises_only P m \<Longrightarrow> (\<And>x. raises_only P (k x)) \<Longrightarrow> raises_only P (bindE m k)"
  unfolding raises_only_def bindE_def
  by (auto split: prod.splits sum.splits) (metis fst_conv)+

lemma raises_only_liftE: "(\<And>e. r = Inl e \<Longrightarrow> P e) \<Longrightarrow> raises_only P (liftE r)"
  by (cases r) (simp_all add: raises_only_returnE raises_only_raiseE)

lemma raises_only_mono: "raises_only P m \<Longrightarrow> (\<And>e. P e \<Longrightarrow> Q e) \<Longrightarrow> raises_only Q m"
  by (auto simp: raises_only_def)

lemma bind_param_error: "bind_param v = Inl e \<Longrightarrow> is_storage_error e"
  by (auto simp: bind_param_def is_storage_error_def split: pyval.splits if_splits)

lemma bind_params_error: "bind_params vs = Inl e \<Longrightarrow> is_storage_error e"
  by (induction vs) (auto split: sum.splits dest: bind_param_error)

lemma sqlite_execute_error: "sqlite_execute q ps db = Inl e \<Longrightarrow> is_storage_error e"
  unfolding sqlite_execute_def
  by (cases q)
     (auto simp: is_storage_error_def bad_bindings_def bad_columns_def syntax_error_def
           no_such_table_def Let_def
           split: list.splits sqlval.splits option.splits if_splits)

lemma raises_only_db_execute: "raises_only is_storage_error (db_execute q ps)"
  unfolding raises_only_def db_execute_def Let_def
  by (auto split: sum.splits prod.splits dest: bind_params_error sqlite_execute_error)

lemma parse_filter_key_operator: "map_of OPERATORS (snd (parse_filter_key key)) \<noteq> None"
  by (simp add: parse_filter_key_def Let_def OPERATORS_def)

lemma parse_filters_loop_ok: "\<exists>r. parse_filters_loop kwargs conditions vals = Inr r"
proof (induction kwargs arbitrary: conditions vals)
  case Nil
  then show ?case by simp
next
  case (Cons kv kwargs)
  obtain key v where kv: "kv = (key, v)" by (cases kv)
  obtain field_name operator where p: "parse_filter_key key = (field_name, operator)"
    by (cases "parse_filter_key key")
  with parse_filter_key_operator [of key] obtain sql_operator
    where "map_of OPERATORS operator = Some sql_operator" by auto
  with kv p Cons.IH show ?case by simp
qed

lemma parse_filters_ok: "\<exists>r. parse_filters kwargs = Inr r"
  using parse_filters_loop_ok [of kwargs "[]" "[]"]
  by (auto simp: parse_filters_def split: prod.splits)

lemma benign_simps [simp]:
  "benign (RuntimeError s)" "benign (StorageError s)" "benign (unknown_field c f)"
  "benign (not_initialized c)"
  by (simp_all add: benign_def is_unsupported_operator_def unknown_field_def not_initialized_def)

lemma benign_storage: "is_storage_error e \<Longrightarrow> benign e"
  by (cases e) (simp_all add: is_storage_error_def)

lemma raises_benign_db_execute: "raises_only benign (db_execute q ps)"
  by (rule raises_only_mono [OF raises_only_db_execute]) (rule benign_storage)

lemma raises_benign_ensure_db: "raises_only benign ensure_db_connection"
  by (auto simp: raises_only_def ensure_db_connection_def raiseE_def returnE_def)

lemma raises_benign_get_table_name: "raises_only benign (liftE (get_table_name c))"
  by (rule raises_only_liftE) (auto simp: get_table_name_def split: option.splits)

lemma raises_benign_get_fields: "raises_only benign (liftE (get_fields c))"
  by (rule raises_only_liftE) (auto simp: get_fields_def split: option.splits)

lemma raises_benign_create_table_sql: "raises_only benign (liftE (create_table_sql c))"
  by (rule raises_only_liftE) (auto simp: create_table_sql_def split: option.splits if_splits)

lemma raises_benign_table_exists: "raises_only benign (table_exists t)"
  unfolding table_exists_def
  by (intro raises_only_bindE raises_benign_db_execute raises_only_returnE)

lemma raises_benign_create_table: "raises_only benign (create_table c b)"
  unfolding create_table_def db_commit_def
  by (auto intro!: raises_only_bindE raises_only_raiseE raises_only_returnE
        raises_benign_ensure_db raises_benign_get_table_name raises_benign_table_exists
        raises_benign_create_table_sql raises_benign_db_execute)

lemma raises_benign_ensure_table: "raises_only benign (ensure_table c)"
  unfolding ensure_table_def
  by (auto intro: raises_only_returnE raises_benign_create_table)

lemma from_db_rows_error: "from_db_rows c rs cols = Inl e \<Longrightarrow> e = not_initialized c"
  by (induction rs arbitrary: e)
     (auto simp: from_db_row_def split: sum.splits option.splits)

lemma raises_benign_from_db_rows: "raises_only benign (liftE (from_db_rows c rs cols))"
  by (rule raises_only_liftE) (auto dest: from_db_rows_error)

lemma check_filter_fields_error:
  "check_filter_fields c flds kwargs = Some e \<Longrightarrow> \<exists>f. e = unknown_field c f"
  by (induction kwargs) (auto split: prod.splits if_splits)

lemma check_filter_fields_benign:
  "check_filter_fields c flds kwargs = Some e \<Longrightarrow> benign e"
  using check_filter_fields_error by fastforce

lemma raises_benign_filter: "raises_only benign (Model_filter c kwargs)"
proof -
  obtain where_clause vals where pf: "parse_filters kwargs = Inr (where_clause, vals)"
    using parse_filters_ok [of kwargs] by (metis surj_pair)
  show ?thesis
    unfolding Model_filter_def pf
    by (auto intro!: raises_only_bindE raises_only_raiseE raises_only_returnE
          raises_benign_ensure_db raises_benign_get_table_name raises_benign_get_fields
          raises_benign_ensure_table raises_benign_db_execute raises_benign_from_db_rows
          simp: Let_def
          split: option.splits intro: check_filter_fields_benign)
qed

text \<open>
  Claim C10. For every key, the operator that \<open>parse_filter_key\<close> returns is a key of
  \<open>OPERATORS\<close>; so \<open>parse_filters\<close> returns for every set of filters, and no call of
  \<open>filter\<close>, on any class, with any keys, in any state, raises the error
  \<open>Unsupported filter operator\<close>.
\<close>

theorem unsupported_operator_unreachable:
  "map_of OPERATORS (snd (parse_filter_key key)) \<noteq> None \<and>
   (\<exists>r. parse_filters kwargs = Inr r) \<and>
   \<not> (\<exists>e. fst (Model_filter c kwargs w) = Inl e \<and> is_unsupported_operator e)"
  using parse_filter_key_operator [of key] parse_filters_ok [of kwargs]
    raises_benign_filter [of c kwargs]
  by (auto simp: raises_only_def benign_def)

section \<open>The operations of Model\<close>





lemma validate_hook:
  "class_getattr c ''validate'' = Some (Func hook) \<Longrightarrow> map_of self ''validate'' = None \<Longrightarrow>
     validate c self = hook self"
  by (simp add: validate_def)

text \<open>
  Claim C8. When the class defines a \<open>validate\<close> hook (and the instance has no
  attribute of that name hiding it) and the hook raises on the instance, \<open>create\<close> and
  \<open>save\<close> raise and leave the state as it was: no statement is executed, no row changes.
  On a model that is not abstract the error raised is the hook's.
\<close>

theorem validation_aborts_write:
  "(class_getattr c ''validate'' = Some (Func hook) \<and>
    map_of (Model_init c [] kwargs) ''validate'' = None \<and>
    hook (Model_init c [] kwargs) = Some e \<longrightarrow>
      snd (Model_create c kwargs w) = w \<and>
      (\<exists>e'. fst (Model_create c kwargs w) = Inl e') \<and>
      (\<not> is_abstract c \<longrightarrow> fst (Model_create c kwargs w) = Inl e)) \<and>
   (class_getattr c ''validate'' = Some (Func hook) \<and>
    map_of self ''validate'' = None \<and>
    hook self = Some e \<longrightarrow>
      snd (Model_save c self w) = w \<and>
      (\<exists>e'. fst (Model_save c self w) = Inl e') \<and>
      (\<not> is_abstract c \<longrightarrow> fst (Model_save c self w) = Inl e))"
  by (auto simp: Model_create_def Model_save_def Let_def raiseE_def validate_hook)

theorem validation_aborts_write_witness:
  "Model_create Adult [(''name'', PStr ''Tim''), (''age'', PInt 12)] fresh_db
     = (Inl (ValueError ''too young''), fresh_db) \<and>
   Model_save Adult [(''id'', PInt 1), (''name'', PStr ''Tim''), (''age'', PInt 12)]
       (snd step_create_bob)
     = (Inl (ValueError ''too young''), snd step_create_bob)"
proof -
  let ?hook = "\<lambda>self. case map_of self ''age'' of
                         Some (PInt a) \<Rightarrow> if a < 18 then Some (ValueError ''too young'') else None
                       | _ \<Rightarrow> Some (ValueError ''age is required'')"
  let ?kw = "[(''name'', PStr ''Tim''), (''age'', PInt 12)]"
  let ?self = "[(''id'', PInt 1), (''name'', PStr ''Tim''), (''age'', PInt 12)]"
  have h: "class_getattr Adult ''validate'' = Some (Func ?hook)"
    by (simp add: Adult_def)
  have na: "\<not> is_abstract Adult" by code_simp
  have i: "Model_init Adult [] ?kw = [(''id'', PNone), (''name'', PStr ''Tim''), (''age'', PInt 12)]"
    by code_simp
  have c1: "map_of (Model_init Adult [] ?kw) ''validate'' = None" unfolding i by simp
  have c2: "?hook (Model_init Adult [] ?kw) = Some (ValueError ''too young'')" unfolding i by simp
  have s1: "map_of ?self ''validate'' = None" by simp
  have s2: "?hook ?self = Some (ValueError ''too young'')" by simp
  from validation_aborts_write [of Adult ?hook ?kw "ValueError ''too young''" fresh_db ?self]
    h c1 c2 na
  have "Model_create Adult ?kw fresh_db = (Inl (ValueError ''too young''), fresh_db)"
    by (metis prod.collapse)
  moreover
  from validation_aborts_write [of Adult ?hook ?kw "ValueError ''too young''" "snd step_create_bob" ?self]
    h s1 s2 na
  have "Model_save Adult ?self (snd step_create_bob)
     = (Inl (ValueError ''too young''), snd step_create_bob)"
    by (metis prod.collapse)
  ultimately show ?thesis by blast
qed


lemma select_where_true:
  "sqlite_execute (SelectWhere t cols ''1=1'') [] db = sqlite_execute (SelectAll t cols) [] db"
  by (simp add: sqlite_execute_def parse_where_def split: option.splits)

lemma db_execute_where_true:
  "fst (db_execute (SelectWhere t cols ''1=1'') [] w) = fst (db_execute (SelectAll t cols) [] w) \<and>
   store (snd (db_execute (SelectWhere t cols ''1=1'') [] w))
     = store (snd (db_execute (SelectAll t cols) [] w))"
  by (simp add: db_execute_def Let_def select_where_true split: sum.splits prod.splits)

lemma parse_filters_empty: "parse_filters [] = Inr (''1=1'', [])"
  by (simp add: parse_filters_def)

lemma filter_empty_all:
  assumes "\<not> is_abstract c"
  shows "fst (Model_filter c [] w) = fst (Model_all c w) \<and>
         store (snd (Model_filter c [] w)) = store (snd (Model_all c w))"
proof -
  obtain r1 w1 where e: "ensure_table c w = (r1, w1)" by (cases "ensure_table c w")
  show ?thesis
  proof (cases r1)
    case (Inl err)
    with e assms show ?thesis
      by (simp add: Model_filter_def Model_all_def bindE_def)
  next
    case (Inr u)
    show ?thesis
    proof (cases "configured w1")
      case False
      with e Inr assms show ?thesis
        by (simp add: Model_filter_def Model_all_def bindE_def ensure_db_connection_def raiseE_def)
    next
      case True
      show ?thesis
      proof (cases "lookup_meta c")
        case None
        with assms show ?thesis by (simp add: is_abstract_iff)
      next
        case (Some m)
        let ?cols = "''id'' # map fst (meta_fields m)"
        let ?t = "meta_table_name m"
        obtain ra wa where a: "db_execute (SelectAll ?t ?cols) [] w1 = (ra, wa)"
          by (cases "db_execute (SelectAll ?t ?cols) [] w1")
        obtain rf wf where f: "db_execute (SelectWhere ?t ?cols ''1=1'') [] w1 = (rf, wf)"
          by (cases "db_execute (SelectWhere ?t ?cols ''1=1'') [] w1")
        from db_execute_where_true [of ?t ?cols w1] a f
        have req: "rf = ra" and seq: "store wf = store wa" by simp_all
        have F: "Model_filter c [] w =
                   (case rf of Inl err \<Rightarrow> (Inl err, wf)
                    | Inr cur \<Rightarrow> liftE (from_db_rows c (cur_rows cur) ?cols) wf)"
          using assms e Inr True Some f
          by (simp add: Model_filter_def bindE_def ensure_db_connection_def returnE_def
                get_table_name_def get_fields_def parse_filters_empty Let_def split: sum.splits)
        have A: "Model_all c w =
                   (case ra of Inl err \<Rightarrow> (Inl err, wa)
                    | Inr cur \<Rightarrow> liftE (from_db_rows c (cur_rows cur) ?cols) wa)"
          using assms e Inr True Some a
          by (simp add: Model_all_def bindE_def ensure_db_connection_def returnE_def
                get_table_name_def get_fields_def Let_def split: sum.splits)
        show ?thesis
          unfolding F A req using seq
          by (auto simp: liftE_def raiseE_def returnE_def split: sum.splits)
      qed
    qed
  qed
qed

lemma filter_all_abstract:
  "is_abstract c \<Longrightarrow> snd (Model_filter c [] w) = w \<and> snd (Model_all c w) = w \<and>
     isl (fst (Model_filter c [] w)) \<and> isl (fst (Model_all c w))"
  by (simp add: Model_filter_def Model_all_def raiseE_def)

text \<open>
  Claim C7. The empty filter set translates to the predicate \<open>1=1\<close> with no values;
  the engine answers a query with that predicate as it answers the query without a
  predicate; and on every class and in every state \<open>filter()\<close> with no conditions
  returns a list of records exactly when \<open>all()\<close> does, the same list, and leaves the
  same database. On a model that is not abstract the two agree on the error as well.
\<close>

theorem filter_without_conditions_is_all:
  "parse_filters [] = Inr (''1=1'', []) \<and>
   sqlite_execute (SelectWhere t cols ''1=1'') [] db = sqlite_execute (SelectAll t cols) [] db \<and>
   (\<forall>rs. (fst (Model_filter c [] w) = Inr rs) = (fst (Model_all c w) = Inr rs)) \<and>
   store (snd (Model_filter c [] w)) = store (snd (Model_all c w)) \<and>
   (\<not> is_abstract c \<longrightarrow> fst (Model_filter c [] w) = fst (Model_all c w))"
proof (cases "is_abstract c")
  case True
  from filter_all_abstract [OF True, of w] show ?thesis
    using True by (auto simp: parse_filters_empty select_where_true)
next
  case False
  from filter_empty_all [OF False, of w] show ?thesis
    using False by (auto simp: parse_filters_empty select_where_true)
qed

section \<open>The scenario of main.py\<close>

lemma User_meta:
  "lookup_meta User =
     Some \<lparr>meta_table_name = ''users'',
           meta_fields =
             [(''name'', \<lparr>fm_annotation = StrT, fm_sqlite_type = ''TEXT'', fm_python_type = Tstr\<rparr>),
              (''email'', \<lparr>fm_annotation = StrT, fm_sqlite_type = ''TEXT'', fm_python_type = Tstr\<rparr>),
              (''age'', \<lparr>fm_annotation = IntT, fm_sqlite_type = ''INTEGER'', fm_python_type = Tint\<rparr>)],
           meta_abstract = False\<rparr>"
  by code_simp

lemma after_create_alice: "fst step_create_alice = Inr alice"
  by code_simp

lemma after_create_bob: "fst step_create_bob = Inr bob"
  by code_simp

lemma ages_after_create_bob:
  "stored_column (snd step_create_bob) ''users'' ''age'' = Some [SInt 25, SNull]"
  by code_simp


lemma after_filter: "fst step_filter = Inr [alice]"
  by code_simp

lemma after_delete: "fst step_delete = Inr (AList.update ''id'' PNone alice)"
  by code_simp

lemma after_get: "fst step_get = Inr None"
  by code_simp

lemma after_all: "fst step_all = Inr [bob]"
  by code_simp

text \<open>
  Claim C4 (as amended). In the scenario (fields \<open>name\<close>, \<open>email\<close>, \<open>age\<close> with the
  class attribute \<open>age = 18\<close>; a new database): creating Alice with age 25 and Bob
  without an age stores no age for Bob (\<open>NULL\<close> in the row, \<open>None\<close> on the instance),
  not 18; \<open>filter(age__gt=18)\<close> then returns exactly Alice's record; after deleting it,
  \<open>get\<close> on her former identity returns \<open>None\<close> and \<open>all()\<close> returns exactly Bob's
  record.
\<close>

theorem scenario_without_default:
  "fst step_create_alice = Inr alice \<and>
   fst step_create_bob = Inr bob \<and>
   getattr User bob ''age'' = PNone \<and>
   stored_column (snd step_create_bob) ''users'' ''age'' = Some [SInt 25, SNull] \<and>
   fst step_filter = Inr [alice] \<and>
   fst step_delete = Inr (AList.update ''id'' PNone alice) \<and>
   fst step_get = Inr None \<and>
   fst step_all = Inr [bob]"
  using after_create_alice after_create_bob ages_after_create_bob after_filter after_delete
    after_get after_all
  by (simp add: getattr_def bob_def)

text \<open>As stated, C4 fails on the stored default: after the two rows are created, the
  \<open>age\<close> column holds 25 and \<open>NULL\<close>, not 25 and 18.\<close>

theorem omitted_age_is_stored_null:
  "fst step_create_bob = Inr bob \<and>
   stored_column (snd step_create_bob) ''users'' ''age'' = Some [SInt 25, SNull] \<and>
   stored_column (snd step_create_bob) ''users'' ''age'' \<noteq> Some [SInt 25, SInt 18]"
  using after_create_bob ages_after_create_bob by simp

section \<open>Concrete runs\<close>

text \<open>
  Claim C2. \<open>Shape\<close> is declared with \<open>Meta.abstract = True\<close> and derives no metadata
  of its own; yet \<open>is_abstract\<close> answers \<open>False\<close> for it, and \<open>Shape.all()\<close> on a new
  database raises nothing: it creates the table \<open>model\<close> of its ancestor, queries it
  and returns the empty list.
\<close>

theorem abstract_model_is_not_rejected:
  "own_meta Shape = None \<and>
   is_abstract Shape = False \<and>
   fst (Model_all Shape fresh_db) = Inr [] \<and>
   map fst (executed (snd (Model_all Shape fresh_db))) =
     [sql_text TableExists,
      ''CREATE TABLE IF NOT EXISTS model (id INTEGER PRIMARY KEY AUTOINCREMENT)'',
      ''SELECT id FROM model'']"
  by code_simp




text \<open>C7 in the scenario, after both rows are created.\<close>

theorem filter_without_conditions_is_all_witness:
  "fst (Model_filter User [] (snd step_create_bob)) = fst (Model_all User (snd step_create_bob)) \<and>
   fst (Model_all User (snd step_create_bob)) = Inr [alice, bob]"
proof -
  have na: "\<not> is_abstract User" using User_meta by (simp add: is_abstract_iff)
  have "fst (Model_all User (snd step_create_bob)) = Inr [alice, bob]" by code_simp
  with filter_without_conditions_is_all [of "''users''" "[]" "[]" User "snd step_create_bob"] na
  show ?thesis by blast
qed

end
